theory Spec2Isabelle
  imports Complex_Main
begin

section \<open>Gesture Dash: the frame loop, the physics step and the gesture classifier\<close>

text \<open>
  A shallow embedding of the runner game: \<^verbatim>\<open>types.ts\<close>, \<^verbatim>\<open>services/vision.ts\<close>,
  the commentary service and the \<^verbatim>\<open>RunnerGame\<close> component with its \<^verbatim>\<open>tick\<close>
  callback. JavaScript numbers that hold coordinates and velocities are modelled as exact
  reals (no rounding), the score and the frame counter as integers, array lengths as
  naturals. Every mutation is explicit state passing, the random draws and the camera are
  inputs of a frame, and the one exception the code can raise (reading \<^verbatim>\<open>.y\<close> of a
  missing landmark) is a value of a sum type.
\<close>

subsection \<open>types.ts\<close>

datatype GameState = START | PLAYING | GAME_OVER

datatype GestureType = NONE | OPEN_PALM | CLOSED_FIST | THUMBS_UP

record VisionState =
  handCount :: nat
  gesture :: GestureType
  isTurbo :: bool

record Entity =
  x :: real
  y :: real
  width :: real
  height :: real
  color :: string

record Player = Entity +
  vy :: real
  isJumping :: bool
  isDucking :: bool

datatype ObstacleType = CACTUS | BIRD

record Obstacle = Entity +
  type :: ObstacleType

subsection \<open>services/vision.ts\<close>

text \<open>
  A landmark of the hand model; the classifier reads only its vertical coordinate. The
  fields carry a prefix because \<open>x\<close> and \<open>y\<close> are the fields of \<open>Entity\<close>.
\<close>

record NormalizedLandmark =
  lm_x :: real
  lm_y :: real
  lm_z :: real

datatype error = TypeError

definition isExtended :: "NormalizedLandmark \<Rightarrow> NormalizedLandmark \<Rightarrow> bool" where
  "isExtended tip pip = (lm_y tip < lm_y pip)"

text \<open>
  \<^verbatim>\<open>landmarks[k]\<close> of a missing index is \<^verbatim>\<open>undefined\<close> and reading its \<^verbatim>\<open>.y\<close>
  throws; the largest index read is 20, so the function throws exactly on an array of
  fewer than 21 landmarks.
\<close>

definition detectGesture :: "NormalizedLandmark list \<Rightarrow> error + GestureType" where
  "detectGesture landmarks =
     (if length landmarks < 21 then Inl TypeError
      else
        let thumbTip = landmarks ! 4;
            thumbIp = landmarks ! 3;
            indexTip = landmarks ! 8;
            indexPip = landmarks ! 6;
            middleTip = landmarks ! 12;
            middlePip = landmarks ! 10;
            ringTip = landmarks ! 16;
            ringPip = landmarks ! 14;
            pinkyTip = landmarks ! 20;
            pinkyPip = landmarks ! 18;
            indexOpen = isExtended indexTip indexPip;
            middleOpen = isExtended middleTip middlePip;
            ringOpen = isExtended ringTip ringPip;
            pinkyOpen = isExtended pinkyTip pinkyPip;
            extendedCount = length (filter (\<lambda>b. b) [indexOpen, middleOpen, ringOpen, pinkyOpen])
        in Inr (if lm_y thumbTip < lm_y thumbIp \<and> extendedCount = 0 then THUMBS_UP
                else if extendedCount \<ge> 3 then OPEN_PALM
                else if extendedCount \<le> 1 then CLOSED_FIST
                else NONE))"

text \<open>The loop over the detected hands: the first hand whose gesture is not NONE wins.\<close>

fun primaryGesture :: "NormalizedLandmark list list \<Rightarrow> error + GestureType" where
  "primaryGesture [] = Inr NONE"
| "primaryGesture (landmarks # hands) =
     (case detectGesture landmarks of
        Inl e \<Rightarrow> Inl e
      | Inr g \<Rightarrow> if g \<noteq> NONE then Inr g else primaryGesture hands)"

text \<open>
  \<open>loaded\<close> says that the module's hand landmarker has been created, \<open>hands\<close> is what
  \<^verbatim>\<open>detectForVideo\<close> returns for the frame.
\<close>

definition processVideoFrame ::
    "bool \<Rightarrow> nat \<Rightarrow> NormalizedLandmark list list \<Rightarrow> error + VisionState" where
  "processVideoFrame loaded videoWidth hands =
     (if \<not> loaded \<or> videoWidth = 0
      then Inr \<lparr>handCount = 0, gesture = NONE, isTurbo = False\<rparr>
      else
        case primaryGesture hands of
          Inl e \<Rightarrow> Inl e
        | Inr g \<Rightarrow> Inr \<lparr>handCount = length hands, gesture = g, isTurbo = (length hands \<ge> 2)\<rparr>)"

subsection \<open>The commentary service\<close>

fun digits :: "nat \<Rightarrow> string" where
  "digits n = (if n < 10 then [''0123456789'' ! n]
               else digits (n div 10) @ [''0123456789'' ! (n mod 10)])"

definition showScore :: "int \<Rightarrow> string" where
  "showScore n = (if n < 0 then CHR ''-'' # digits (nat (- n)) else digits (nat n))"

text \<open>What the text generation call does: no key configured, a response text, or a failure.\<close>

datatype ApiOutcome = NoApiKey | ResponseText string | ApiError

fun generateGameOverMessage :: "int \<Rightarrow> ApiOutcome \<Rightarrow> string" where
  "generateGameOverMessage score NoApiKey =
     ''Game Over! You scored '' @ showScore score @ ''. (Add API Key for AI roasts)''"
| "generateGameOverMessage score (ResponseText t) =
     (if t = [] then ''Game Over! Score: '' @ showScore score else t)"
| "generateGameOverMessage score ApiError = ''Game Over! Score: '' @ showScore score"

subsection \<open>Game constants\<close>

definition GRAVITY :: real where "GRAVITY = 0.6"
definition JUMP_FORCE :: real where "JUMP_FORCE = - 12"
definition GROUND_Y :: real where "GROUND_Y = 350"
definition DUCK_HEIGHT :: real where "DUCK_HEIGHT = 30"
definition NORMAL_HEIGHT :: real where "NORMAL_HEIGHT = 60"
definition CANVAS_WIDTH :: real where "CANVAS_WIDTH = 800"
definition CANVAS_HEIGHT :: real where "CANVAS_HEIGHT = 450"
definition BASE_SPEED :: real where "BASE_SPEED = 6"
definition TURBO_SPEED_MULTIPLIER :: real where "TURBO_SPEED_MULTIPLIER = 1.8"

subsection \<open>The state of the component\<close>

record Game =
  player :: Player
  obstacles :: "Obstacle list"
  frameCount :: int
  currentSpeed :: real
  score :: int

text \<open>
  The React state of the component (\<open>score_ui\<close> is the React copy of the score), the
  mutable game reference, and the commentary requests that have been issued and have not
  resolved yet, each with the score it was issued for.
\<close>

record RunnerGame =
  gameState :: GameState
  score_ui :: int
  visionState :: VisionState
  aiMessage :: string
  gameRef :: Game
  pending :: "int list"

definition initialGame :: Game where
  "initialGame =
     \<lparr>player = \<lparr>x = 50, y = GROUND_Y - NORMAL_HEIGHT, width = 40, height = NORMAL_HEIGHT,
                 color = ''#00ffcc'', vy = 0, isJumping = False, isDucking = False\<rparr>,
      obstacles = [], frameCount = 0, currentSpeed = BASE_SPEED, score = 0\<rparr>"

definition initialState :: RunnerGame where
  "initialState =
     \<lparr>gameState = START, score_ui = 0,
      visionState = \<lparr>handCount = 0, gesture = NONE, isTurbo = False\<rparr>,
      aiMessage = [], gameRef = initialGame, pending = []\<rparr>"

subsection \<open>spawnObstacle, handleGameOver, resetGame\<close>

text \<open>\<open>r1\<close> and \<open>r2\<close> are the two random draws the function may make.\<close>

definition spawnObstacle :: "real \<Rightarrow> real \<Rightarrow> real \<Rightarrow> Obstacle list \<Rightarrow> Obstacle list" where
  "spawnObstacle speed r1 r2 obs =
     (let minGap = 250 + speed * 10 in
      if obs = [] \<or> CANVAS_WIDTH - x (last obs) > minGap then
        if r1 < 0.02 then
          let ty = (if r2 > 0.6 then BIRD else CACTUS) in
          obs @ [\<lparr>x = CANVAS_WIDTH,
                   y = (if ty = BIRD then GROUND_Y - 90 else GROUND_Y - 40),
                   width = (if ty = BIRD then 40 else 30),
                   height = (if ty = BIRD then 30 else 40),
                   color = (if ty = BIRD then ''#ff4444'' else ''#ffaa00''),
                   type = ty\<rparr>]
        else obs
      else obs)"

text \<open>
  The phase changes at once; the request for the commentary stays in flight until
  \<open>commentaryResolved\<close> delivers it.
\<close>

definition handleGameOver :: "int \<Rightarrow> RunnerGame \<Rightarrow> RunnerGame" where
  "handleGameOver finalScore s = s\<lparr>gameState := GAME_OVER, pending := pending s @ [finalScore]\<rparr>"

text \<open>
  The continuation of \<^verbatim>\<open>handleGameOver\<close> after its \<^verbatim>\<open>await\<close>: request number \<open>k\<close>
  in flight resolves with the given outcome and its message is stored.
\<close>

definition commentaryResolved :: "nat \<Rightarrow> ApiOutcome \<Rightarrow> RunnerGame \<Rightarrow> RunnerGame" where
  "commentaryResolved k outcome s =
     (if k < length (pending s)
      then s\<lparr>aiMessage := generateGameOverMessage (pending s ! k) outcome,
             pending := take k (pending s) @ drop (Suc k) (pending s)\<rparr>
      else s)"

definition resetGame :: "RunnerGame \<Rightarrow> RunnerGame" where
  "resetGame s =
     s\<lparr>gameRef :=
         \<lparr>player = \<lparr>x = 50, y = GROUND_Y - NORMAL_HEIGHT, width = 40, height = NORMAL_HEIGHT,
                     color = ''#00ffcc'', vy = 0, isJumping = False, isDucking = False\<rparr>,
          obstacles = [], frameCount = 0, currentSpeed = BASE_SPEED, score = 0\<rparr>,
       score_ui := 0, aiMessage := [], gameState := PLAYING\<rparr>"

subsection \<open>tick\<close>

text \<open>What one call of \<^verbatim>\<open>tick\<close> reads from outside the component.\<close>

record Frame =
  canvasReady :: bool
  videoReady :: bool
  landmarkerLoaded :: bool
  videoWidth :: nat
  hands :: "NormalizedLandmark list list"
  random1 :: real
  random2 :: real

text \<open>Player control: jump, then duck or stand up.\<close>

definition playerControl :: "GestureType \<Rightarrow> Player \<Rightarrow> Player" where
  "playerControl g p =
     (let p1 = (if g = OPEN_PALM \<and> \<not> isJumping p
                then p\<lparr>vy := JUMP_FORCE, isJumping := True, isDucking := False\<rparr>
                else p)
      in if g = CLOSED_FIST then
           (let p2 = p1\<lparr>isDucking := True, height := DUCK_HEIGHT, y := GROUND_Y - DUCK_HEIGHT\<rparr>
            in if isJumping p2 then p2\<lparr>vy := vy p2 + 2\<rparr> else p2)
         else if isDucking p1
           then p1\<lparr>isDucking := False, height := NORMAL_HEIGHT, y := GROUND_Y - NORMAL_HEIGHT\<rparr>
           else p1)"

text \<open>The inputs of a frame with a vision state, by the phase the callback captured.\<close>

definition handleInputs :: "VisionState \<Rightarrow> RunnerGame \<Rightarrow> RunnerGame" where
  "handleInputs vState s =
     (case gameState s of
        START \<Rightarrow> if gesture vState = OPEN_PALM then s\<lparr>gameState := PLAYING\<rparr> else s
      | GAME_OVER \<Rightarrow> if gesture vState = THUMBS_UP then resetGame s else s
      | PLAYING \<Rightarrow>
          s\<lparr>gameRef := (gameRef s)
              \<lparr>player := playerControl (gesture vState) (player (gameRef s)),
               currentSpeed := (if isTurbo vState then BASE_SPEED * TURBO_SPEED_MULTIPLIER
                                else BASE_SPEED)\<rparr>\<rparr>)"

text \<open>Step 1 of the callback: process vision, when the video element is ready.\<close>

definition processVision :: "Frame \<Rightarrow> RunnerGame \<Rightarrow> error + RunnerGame" where
  "processVision f s =
     (if videoReady f then
        case processVideoFrame (landmarkerLoaded f) (videoWidth f) (hands f) of
          Inl e \<Rightarrow> Inl e
        | Inr vState \<Rightarrow> Inr (handleInputs vState (s\<lparr>visionState := vState\<rparr>))
      else Inr s)"

definition gravity :: "Player \<Rightarrow> Player" where
  "gravity p =
     (if y p < GROUND_Y - height p \<or> vy p < 0
      then p\<lparr>y := y p + vy p, vy := vy p + GRAVITY, isJumping := True\<rparr>
      else p\<lparr>vy := 0, isJumping := False, y := GROUND_Y - height p\<rparr>)"

definition collides :: "Player \<Rightarrow> Obstacle \<Rightarrow> bool" where
  "collides p obs =
     (x p < x obs + width obs \<and> x p + width p > x obs \<and>
      y p < y obs + height obs \<and> y p + height p > y obs)"

text \<open>
  The body of the obstacle loop at index \<open>i\<close>: move the obstacle, remove it and score
  when it is off screen, test it against the player. The test also runs on an obstacle
  that has just been removed.
\<close>

definition obstacleStep :: "nat \<Rightarrow> RunnerGame \<Rightarrow> RunnerGame" where
  "obstacleStep i s =
     (let game = gameRef s;
          p = player game;
          obs = (obstacles game ! i)\<lparr>x := x (obstacles game ! i) - currentSpeed game\<rparr>;
          game1 = game\<lparr>obstacles := (obstacles game)[i := obs]\<rparr>;
          s1 = s\<lparr>gameRef := game1\<rparr>;
          s2 = (if x obs + width obs < 0
                then s1\<lparr>gameRef := game1
                          \<lparr>obstacles := take i (obstacles game1) @ drop (Suc i) (obstacles game1),
                           score := score game1 + 10\<rparr>,
                        score_ui := score game1 + 10\<rparr>
                else s1)
      in if collides p obs then handleGameOver (score (gameRef s2)) s2 else s2)"

text \<open>The loop \<^verbatim>\<open>for (i = length - 1; i >= 0; i--)\<close>, by the number of indices left.\<close>

fun moveAndCollide :: "nat \<Rightarrow> RunnerGame \<Rightarrow> RunnerGame" where
  "moveAndCollide 0 s = s"
| "moveAndCollide (Suc i) s = moveAndCollide i (obstacleStep i s)"

text \<open>Step 2 of the callback: gravity, spawning, the obstacle loop, the frame counter.\<close>

definition updatePhysics :: "Frame \<Rightarrow> RunnerGame \<Rightarrow> RunnerGame" where
  "updatePhysics f s =
     (let game = gameRef s;
          game1 = game\<lparr>player := gravity (player game)\<rparr>;
          game2 = game1\<lparr>obstacles :=
                    spawnObstacle (currentSpeed game1) (random1 f) (random2 f) (obstacles game1)\<rparr>;
          s1 = moveAndCollide (length (obstacles game2)) (s\<lparr>gameRef := game2\<rparr>)
      in s1\<lparr>gameRef := (gameRef s1)\<lparr>frameCount := frameCount (gameRef s1) + 1\<rparr>\<rparr>)"

text \<open>
  The callback closes over the phase of the render that created it, so both tests of
  the phase read the phase the frame started in; a phase set during the frame is seen by
  the next frame.
\<close>

definition tick :: "Frame \<Rightarrow> RunnerGame \<Rightarrow> error + RunnerGame" where
  "tick f s =
     (if \<not> canvasReady f then Inr s
      else
        case processVision f s of
          Inl e \<Rightarrow> Inl e
        | Inr s1 \<Rightarrow> if gameState s \<noteq> PLAYING then Inr s1 else Inr (updatePhysics f s1))"

subsection \<open>Executions\<close>

datatype Event = FrameEvent Frame | CommentaryEvent nat ApiOutcome

fun step :: "Event \<Rightarrow> RunnerGame \<Rightarrow> error + RunnerGame" where
  "step (FrameEvent f) s = tick f s"
| "step (CommentaryEvent k outcome) s = Inr (commentaryResolved k outcome s)"

fun run :: "Event list \<Rightarrow> RunnerGame \<Rightarrow> error + RunnerGame" where
  "run [] s = Inr s"
| "run (e # es) s = (case step e s of Inl err \<Rightarrow> Inl err | Inr s' \<Rightarrow> run es s')"

inductive reachable :: "RunnerGame \<Rightarrow> bool" where
  reachable_init: "reachable initialState"
| reachable_step: "reachable s \<Longrightarrow> step e s = Inr s' \<Longrightarrow> reachable s'"

section \<open>Notions used to state the properties\<close>

subsection \<open>The classification as the specification words it\<close>

text \<open>The tip and the proximal interphalangeal joint of index, middle, ring and pinky.\<close>

definition fingerJoints :: "(nat \<times> nat) list" where
  "fingerJoints = [(8, 6), (12, 10), (16, 14), (20, 18)]"

definition extendedFingers :: "NormalizedLandmark list \<Rightarrow> nat" where
  "extendedFingers lms =
     length (filter (\<lambda>(tip, pip). lm_y (lms ! tip) < lm_y (lms ! pip)) fingerJoints)"

definition thumbUp :: "NormalizedLandmark list \<Rightarrow> bool" where
  "thumbUp lms = (lm_y (lms ! 4) < lm_y (lms ! 3))"

definition classify_spec :: "NormalizedLandmark list \<Rightarrow> GestureType" where
  "classify_spec lms =
     (if thumbUp lms \<and> extendedFingers lms = 0 then THUMBS_UP
      else if extendedFingers lms \<ge> 3 then OPEN_PALM
      else if extendedFingers lms \<le> 1 then CLOSED_FIST
      else NONE)"

text \<open>The vertical integration step as the specification words it.\<close>

definition integrate_spec :: "Player \<Rightarrow> Player" where
  "integrate_spec p =
     (if y p + height p < GROUND_Y \<or> vy p < 0
      then (p\<lparr>y := y p + vy p\<rparr>)\<lparr>vy := vy p + GRAVITY, isJumping := True\<rparr>
      else p\<lparr>vy := 0, isJumping := False, y := GROUND_Y - height p\<rparr>)"

subsection \<open>The obstacle pass, seen as a whole\<close>

definition moveObstacle :: "real \<Rightarrow> Obstacle \<Rightarrow> Obstacle" where
  "moveObstacle speed obs = obs\<lparr>x := x obs - speed\<rparr>"

definition offScreen :: "Obstacle \<Rightarrow> bool" where
  "offScreen obs = (x obs + width obs < 0)"

text \<open>
  The obstacles of a frame after spawning and moving, before any removal; \<open>g\<close> is the
  game once the inputs of the frame have been handled.
\<close>

definition movedObstacles :: "Frame \<Rightarrow> Game \<Rightarrow> Obstacle list" where
  "movedObstacles f g =
     map (moveObstacle (currentSpeed g))
       (spawnObstacle (currentSpeed g) (random1 f) (random2 f) (obstacles g))"

definition feet :: "Player \<Rightarrow> real" where
  "feet p = y p + height p"

text \<open>
  What every reachable state satisfies: a player who is not airborne stands on the ground
  line, and feet below the ground line come with a velocity that is not upward.
\<close>

definition grounded_inv :: "Player \<Rightarrow> bool" where
  "grounded_inv p =
     ((\<not> isJumping p \<longrightarrow> feet p = GROUND_Y) \<and> (feet p \<le> GROUND_Y \<or> 0 \<le> vy p))"

subsection \<open>Concrete hands, frames and states\<close>

text \<open>A hand given by the vertical coordinates of its 21 landmarks.\<close>

definition hand :: "real list \<Rightarrow> NormalizedLandmark list" where
  "hand ys = map (\<lambda>v. \<lparr>lm_x = 0, lm_y = v, lm_z = 0\<rparr>) ys"

definition fistHand :: "NormalizedLandmark list" where
  "fistHand = hand [5,5,5,5,6, 5,5,5,6, 5,5,5,6, 5,5,5,6, 5,5,5,6]"

definition palmHand :: "NormalizedLandmark list" where
  "palmHand = hand [5,5,5,5,4, 5,5,5,4, 5,5,5,4, 5,5,5,4, 5,5,5,4]"

definition thumbHand :: "NormalizedLandmark list" where
  "thumbHand = hand [5,5,5,5,4, 5,5,5,6, 5,5,5,6, 5,5,5,6, 5,5,5,6]"

definition idleHand :: "NormalizedLandmark list" where
  "idleHand = hand [5,5,5,5,6, 5,5,5,4, 5,5,5,4, 5,5,5,6, 5,5,5,6]"

text \<open>A frame with canvas and camera ready that shows the given hands and spawns nothing.\<close>

definition camera :: "NormalizedLandmark list list \<Rightarrow> Frame" where
  "camera hs = \<lparr>canvasReady = True, videoReady = True, landmarkerLoaded = True,
      videoWidth = 640, hands = hs, random1 = 1, random2 = 0\<rparr>"

text \<open>A frame whose video element is not ready.\<close>

definition blindFrame :: Frame where
  "blindFrame = \<lparr>canvasReady = True, videoReady = False, landmarkerLoaded = False,
      videoWidth = 0, hands = [], random1 = 1, random2 = 0\<rparr>"

definition cactusAt :: "real \<Rightarrow> Obstacle" where
  "cactusAt pos = \<lparr>x = pos, y = GROUND_Y - 40, width = 30, height = 40,
                    color = ''#ffaa00'', type = CACTUS\<rparr>"

text \<open>A playing state with one obstacle about to leave the field and one at the player.\<close>

definition crowdedState :: RunnerGame where
  "crowdedState = initialState\<lparr>gameState := PLAYING,
      gameRef := initialGame\<lparr>obstacles := [cactusAt (- 25), cactusAt 66]\<rparr>\<rparr>"

text \<open>
  The game is started; then a jump, four frames of ducking in the air and four idle
  frames. \<open>overshootBefore\<close> is the state they lead to, \<open>overshootAfter\<close> the state
  after one more idle frame.
\<close>

definition overshootTrace :: "Event list" where
  "overshootTrace = map (\<lambda>h. FrameEvent (camera [h]))
     [palmHand, palmHand, fistHand, fistHand, fistHand, fistHand,
      idleHand, idleHand, idleHand, idleHand]"

definition overshootBefore :: RunnerGame where
  "overshootBefore = initialState
     \<lparr>gameState := PLAYING,
      visionState := \<lparr>handCount = 1, gesture = NONE, isTurbo = False\<rparr>,
      gameRef := initialGame
        \<lparr>player := (player initialGame)\<lparr>y := 289.6, vy := 1.4, isJumping := True\<rparr>,
         frameCount := 9\<rparr>\<rparr>"

definition overshootAfter :: RunnerGame where
  "overshootAfter = initialState
     \<lparr>gameState := PLAYING,
      visionState := \<lparr>handCount = 1, gesture = NONE, isTurbo = False\<rparr>,
      gameRef := initialGame
        \<lparr>player := (player initialGame)\<lparr>y := 291, vy := 2, isJumping := True\<rparr>,
         frameCount := 10\<rparr>\<rparr>"

text \<open>A state after a game over, with a commentary shown and a request in flight.\<close>

definition gameOverState :: RunnerGame where
  "gameOverState = crowdedState\<lparr>gameState := GAME_OVER, score_ui := 10, aiMessage := ''Nice run'',
      gameRef := (gameRef crowdedState)\<lparr>score := 10, frameCount := 100, currentSpeed := 10.8\<rparr>,
      pending := [10]\<rparr>"

text \<open>
  Two hands in view: the frame, the state after starting the game and playing one such
  frame, and the states that a frame without video and a frame with one hand lead to.
  \<open>twoHandStart\<close> is the state after starting the game with two hands in view.
\<close>

definition turboFrame :: Frame where
  "turboFrame = camera [idleHand, idleHand]"

definition turboTrace :: "Event list" where
  "turboTrace = [FrameEvent (camera [palmHand]), FrameEvent turboFrame]"

definition turboState :: RunnerGame where
  "turboState = initialState
     \<lparr>gameState := PLAYING,
      visionState := \<lparr>handCount = 2, gesture = NONE, isTurbo = True\<rparr>,
      gameRef := initialGame\<lparr>frameCount := 1, currentSpeed := 10.8\<rparr>\<rparr>"

definition turboLatched :: RunnerGame where
  "turboLatched = turboState\<lparr>gameRef := (gameRef turboState)\<lparr>frameCount := 2\<rparr>\<rparr>"

definition twoHandStart :: RunnerGame where
  "twoHandStart = initialState
     \<lparr>gameState := PLAYING,
      visionState := \<lparr>handCount = 2, gesture = OPEN_PALM, isTurbo = True\<rparr>\<rparr>"

definition twoHandAfter :: RunnerGame where
  "twoHandAfter = twoHandStart\<lparr>gameRef := initialGame\<lparr>frameCount := 1\<rparr>\<rparr>"

definition turboEnded :: RunnerGame where
  "turboEnded = turboState
     \<lparr>visionState := \<lparr>handCount = 1, gesture = NONE, isTurbo = False\<rparr>,
      gameRef := (gameRef turboState)\<lparr>frameCount := 2, currentSpeed := 6\<rparr>\<rparr>"

text \<open>
  Two sessions at turbo speed. In the first a bird is spawned in frame 1 and a cactus in
  frame 35; the bird flies over the standing player and leaves the field in frame 78, the
  cactus hits the player in frame 100. The second session starts with the thumbs up and
  its first cactus hits the player in frame 66.
\<close>

definition birdFrame :: Frame where
  "birdFrame = turboFrame\<lparr>random1 := 0, random2 := 1\<rparr>"

definition cactusFrame :: Frame where
  "cactusFrame = turboFrame\<lparr>random1 := 0, random2 := 0\<rparr>"

definition session1 :: "Event list" where
  "session1 =
     FrameEvent (camera [palmHand]) # FrameEvent birdFrame # replicate 33 (FrameEvent turboFrame) @
     FrameEvent cactusFrame # replicate 65 (FrameEvent turboFrame)"

definition session2 :: "Event list" where
  "session2 =
     FrameEvent (camera [thumbHand]) # FrameEvent cactusFrame # replicate 65 (FrameEvent turboFrame)"

definition firstGameOver :: RunnerGame where
  "firstGameOver = initialState
     \<lparr>gameState := GAME_OVER, score_ui := 10,
      visionState := \<lparr>handCount = 2, gesture = NONE, isTurbo = True\<rparr>,
      gameRef := initialGame
        \<lparr>obstacles := [cactusAt 87.2], frameCount := 100, currentSpeed := 10.8, score := 10\<rparr>,
      pending := [10]\<rparr>"

definition secondGameOver :: RunnerGame where
  "secondGameOver = initialState
     \<lparr>gameState := GAME_OVER,
      visionState := \<lparr>handCount = 2, gesture = NONE, isTurbo = True\<rparr>,
      gameRef := initialGame
        \<lparr>obstacles := [cactusAt 87.2], frameCount := 66, currentSpeed := 10.8\<rparr>,
      pending := [10, 0]\<rparr>"

definition staleShown :: RunnerGame where
  "staleShown = secondGameOver\<lparr>aiMessage := ''Game Over! Score: 10'', pending := []\<rparr>"

section \<open>Properties\<close>

subsection \<open>The obstacle loop\<close>

lemma obstacleStep_player [simp]: "player (gameRef (obstacleStep i s)) = player (gameRef s)"
  by (simp add: obstacleStep_def Let_def handleGameOver_def)

lemma obstacleStep_currentSpeed [simp]:
  "currentSpeed (gameRef (obstacleStep i s)) = currentSpeed (gameRef s)"
  by (simp add: obstacleStep_def Let_def handleGameOver_def)

lemma obstacleStep_frameCount [simp]:
  "frameCount (gameRef (obstacleStep i s)) = frameCount (gameRef s)"
  by (simp add: obstacleStep_def Let_def handleGameOver_def)

lemma obstacleStep_visionState [simp]: "visionState (obstacleStep i s) = visionState s"
  by (simp add: obstacleStep_def Let_def handleGameOver_def)

lemma obstacleStep_aiMessage [simp]: "aiMessage (obstacleStep i s) = aiMessage s"
  by (simp add: obstacleStep_def Let_def handleGameOver_def)

lemma obstacleStep_obstacles:
  assumes "i < length (obstacles (gameRef s))"
  shows "obstacles (gameRef (obstacleStep i s)) =
           take i (obstacles (gameRef s)) @
           filter (\<lambda>ob. \<not> offScreen ob)
             [moveObstacle (currentSpeed (gameRef s)) (obstacles (gameRef s) ! i)] @
           drop (Suc i) (obstacles (gameRef s))"
  using assms
  by (simp add: obstacleStep_def Let_def handleGameOver_def offScreen_def moveObstacle_def
      upd_conv_take_nth_drop)

lemma obstacleStep_length:
  assumes "i < length (obstacles (gameRef s))"
  shows "i \<le> length (obstacles (gameRef (obstacleStep i s)))"
  using assms by (simp add: obstacleStep_obstacles)

lemma obstacleStep_score:
  "score (gameRef (obstacleStep i s)) =
     score (gameRef s) +
     10 * int (length (filter offScreen
        [moveObstacle (currentSpeed (gameRef s)) (obstacles (gameRef s) ! i)]))"
  by (simp add: obstacleStep_def Let_def handleGameOver_def offScreen_def moveObstacle_def)

lemma obstacleStep_gameState:
  "gameState (obstacleStep i s) =
     (if collides (player (gameRef s))
           (moveObstacle (currentSpeed (gameRef s)) (obstacles (gameRef s) ! i))
      then GAME_OVER else gameState s)"
  by (simp add: obstacleStep_def Let_def handleGameOver_def moveObstacle_def)

lemma moveAndCollide_player [simp]: "player (gameRef (moveAndCollide n s)) = player (gameRef s)"
  by (induction n arbitrary: s) simp_all

lemma moveAndCollide_currentSpeed [simp]:
  "currentSpeed (gameRef (moveAndCollide n s)) = currentSpeed (gameRef s)"
  by (induction n arbitrary: s) simp_all

lemma moveAndCollide_frameCount [simp]:
  "frameCount (gameRef (moveAndCollide n s)) = frameCount (gameRef s)"
  by (induction n arbitrary: s) simp_all

lemma moveAndCollide_visionState [simp]: "visionState (moveAndCollide n s) = visionState s"
  by (induction n arbitrary: s) simp_all

lemma moveAndCollide_aiMessage [simp]: "aiMessage (moveAndCollide n s) = aiMessage s"
  by (induction n arbitrary: s) simp_all

text \<open>
  The loop runs from the last index down, so the indices it has still to visit are not
  moved by a removal: after \<open>n\<close> iterations left to do are done, the first \<open>n\<close>
  obstacles have been moved and filtered, the others are as they were.
\<close>

lemma moveAndCollide_obstacles:
  "n \<le> length (obstacles (gameRef s)) \<Longrightarrow>
   obstacles (gameRef (moveAndCollide n s)) =
     filter (\<lambda>ob. \<not> offScreen ob)
       (map (moveObstacle (currentSpeed (gameRef s))) (take n (obstacles (gameRef s)))) @
     drop n (obstacles (gameRef s))"
proof (induction n arbitrary: s)
  case 0
  then show ?case by simp
next
  case (Suc n)
  have lt: "n < length (obstacles (gameRef s))" using Suc.prems by simp
  show ?case
    using lt
    by (simp add: Suc.IH [OF obstacleStep_length [OF lt]] obstacleStep_obstacles [OF lt]
        take_Suc_conv_app_nth)
qed

lemma moveAndCollide_score:
  "n \<le> length (obstacles (gameRef s)) \<Longrightarrow>
   score (gameRef (moveAndCollide n s)) =
     score (gameRef s) +
     10 * int (length (filter offScreen
        (map (moveObstacle (currentSpeed (gameRef s))) (take n (obstacles (gameRef s))))))"
proof (induction n arbitrary: s)
  case 0
  then show ?case by simp
next
  case (Suc n)
  have lt: "n < length (obstacles (gameRef s))" using Suc.prems by simp
  show ?case
    using lt
    by (simp add: Suc.IH [OF obstacleStep_length [OF lt]] obstacleStep_obstacles [OF lt]
        obstacleStep_score take_Suc_conv_app_nth)
qed

lemma moveAndCollide_gameState:
  "n \<le> length (obstacles (gameRef s)) \<Longrightarrow>
   gameState (moveAndCollide n s) =
     (if \<exists>ob \<in> set (map (moveObstacle (currentSpeed (gameRef s))) (take n (obstacles (gameRef s)))).
           collides (player (gameRef s)) ob
      then GAME_OVER else gameState s)"
proof (induction n arbitrary: s)
  case 0
  then show ?case by simp
next
  case (Suc n)
  have lt: "n < length (obstacles (gameRef s))" using Suc.prems by simp
  show ?case
    using lt
    by (auto simp add: Suc.IH [OF obstacleStep_length [OF lt]] obstacleStep_obstacles [OF lt]
        obstacleStep_gameState take_Suc_conv_app_nth)
qed

subsection \<open>The physics step and the callback\<close>

lemma updatePhysics_player [simp]:
  "player (gameRef (updatePhysics f s)) = gravity (player (gameRef s))"
  by (simp add: updatePhysics_def Let_def)

lemma updatePhysics_currentSpeed [simp]:
  "currentSpeed (gameRef (updatePhysics f s)) = currentSpeed (gameRef s)"
  by (simp add: updatePhysics_def Let_def)

lemma updatePhysics_frameCount [simp]:
  "frameCount (gameRef (updatePhysics f s)) = frameCount (gameRef s) + 1"
  by (simp add: updatePhysics_def Let_def)

lemma updatePhysics_visionState [simp]: "visionState (updatePhysics f s) = visionState s"
  by (simp add: updatePhysics_def Let_def)

lemma updatePhysics_aiMessage [simp]: "aiMessage (updatePhysics f s) = aiMessage s"
  by (simp add: updatePhysics_def Let_def)

lemma updatePhysics_obstacles:
  "obstacles (gameRef (updatePhysics f s)) =
     filter (\<lambda>ob. \<not> offScreen ob) (movedObstacles f (gameRef s))"
  by (simp add: updatePhysics_def Let_def moveAndCollide_obstacles movedObstacles_def)

lemma updatePhysics_score:
  "score (gameRef (updatePhysics f s)) =
     score (gameRef s) + 10 * int (length (filter offScreen (movedObstacles f (gameRef s))))"
  by (simp add: updatePhysics_def Let_def moveAndCollide_score movedObstacles_def)

lemma updatePhysics_gameState:
  "gameState (updatePhysics f s) =
     (if \<exists>ob \<in> set (movedObstacles f (gameRef s)). collides (gravity (player (gameRef s))) ob
      then GAME_OVER else gameState s)"
  by (simp add: updatePhysics_def Let_def moveAndCollide_gameState movedObstacles_def)

lemma tick_PLAYING:
  assumes "canvasReady f" "gameState s = PLAYING" "tick f s = Inr s'"
  obtains s1 where "processVision f s = Inr s1" "s' = updatePhysics f s1"
  using assms by (auto simp: tick_def split: sum.splits)

lemma processVision_PLAYING:
  assumes "gameState s = PLAYING" "processVision f s = Inr s1"
  shows "gameState s1 = PLAYING"
    and "obstacles (gameRef s1) = obstacles (gameRef s)"
    and "score (gameRef s1) = score (gameRef s)"
    and "frameCount (gameRef s1) = frameCount (gameRef s)"
    and "aiMessage s1 = aiMessage s"
  using assms by (auto simp: processVision_def handleInputs_def split: sum.splits if_splits)

subsection \<open>Executions\<close>

lemma run_append: "run (es @ es') s = (case run es s of Inl err \<Rightarrow> Inl err | Inr s' \<Rightarrow> run es' s')"
  by (induction es arbitrary: s) (auto split: sum.splits)

lemma run_reachable: "reachable s \<Longrightarrow> run es s = Inr s' \<Longrightarrow> reachable s'"
proof (induction es arbitrary: s)
  case Nil
  then show ?case by simp
next
  case (Cons e es)
  then show ?case
    by (auto split: sum.splits intro: reachable_step)
qed

subsection \<open>The concrete hands\<close>

lemma detect_fist: "detectGesture fistHand = Inr CLOSED_FIST"
  by (simp add: fistHand_def hand_def detectGesture_def isExtended_def Let_def)

lemma detect_palm: "detectGesture palmHand = Inr OPEN_PALM"
  by (simp add: palmHand_def hand_def detectGesture_def isExtended_def Let_def)

lemma detect_thumb: "detectGesture thumbHand = Inr THUMBS_UP"
  by (simp add: thumbHand_def hand_def detectGesture_def isExtended_def Let_def)

lemma detect_idle: "detectGesture idleHand = Inr NONE"
  by (simp add: idleHand_def hand_def detectGesture_def isExtended_def Let_def)

lemma processVideoFrame_camera:
  "processVideoFrame True 640 [fistHand] = Inr \<lparr>handCount = 1, gesture = CLOSED_FIST, isTurbo = False\<rparr>"
  "processVideoFrame True 640 [palmHand] = Inr \<lparr>handCount = 1, gesture = OPEN_PALM, isTurbo = False\<rparr>"
  "processVideoFrame True 640 [thumbHand] = Inr \<lparr>handCount = 1, gesture = THUMBS_UP, isTurbo = False\<rparr>"
  "processVideoFrame True 640 [idleHand] = Inr \<lparr>handCount = 1, gesture = NONE, isTurbo = False\<rparr>"
  "processVideoFrame True 640 [idleHand, idleHand] = Inr \<lparr>handCount = 2, gesture = NONE, isTurbo = True\<rparr>"
  "processVideoFrame True 640 [palmHand, idleHand] = Inr \<lparr>handCount = 2, gesture = OPEN_PALM, isTurbo = True\<rparr>"
  by (simp_all add: processVideoFrame_def detect_fist detect_palm detect_thumb detect_idle)

lemmas constants =
  GRAVITY_def JUMP_FORCE_def GROUND_Y_def DUCK_HEIGHT_def NORMAL_HEIGHT_def
  CANVAS_WIDTH_def CANVAS_HEIGHT_def BASE_SPEED_def TURBO_SPEED_MULTIPLIER_def

lemmas frame_eval =
  tick_def processVision_def handleInputs_def playerControl_def gravity_def
  updatePhysics_def spawnObstacle_def camera_def blindFrame_def processVideoFrame_camera
  constants initialState_def initialGame_def Let_def

subsection \<open>Frames with two hands and frames without video\<close>

lemma turbo_run: "run turboTrace initialState = Inr turboState"
  by (simp add: turboTrace_def turboState_def turboFrame_def frame_eval)

lemma turbo_blind: "tick blindFrame turboState = Inr turboLatched"
  by (simp add: turboLatched_def turboState_def frame_eval)

lemma twoHand_run: "run [FrameEvent (camera [palmHand, idleHand])] initialState = Inr twoHandStart"
  by (simp add: twoHandStart_def frame_eval)

lemma twoHand_blind: "tick blindFrame twoHandStart = Inr twoHandAfter"
  by (simp add: twoHandAfter_def twoHandStart_def frame_eval)

lemma turbo_ended: "tick (camera [idleHand]) turboState = Inr turboEnded"
  by (simp add: turboEnded_def turboState_def frame_eval)

subsection \<open>Collision and the single obstacle pass\<close>

text \<open>
  Claim C1. The overlap test is true for the player rectangle (50, 290, 40, 60) and the
  obstacle rectangle (60, 310, 30, 40) and false for the same obstacle at x = 200. In a
  PLAYING frame the phase after the frame is GAME_OVER exactly when the player, after the
  integration step, overlaps one of the obstacles of the frame after they have moved; in
  particular an overlap with an obstacle still in the sequence ends the game. A collision
  does not abort the pass: whatever collides, the sequence after the frame is the moved
  obstacles without those that are off screen, and the score has grown by 10 for each of
  these.
\<close>

theorem collision_single_pass:
  "collides (p\<lparr>x := 50, y := 290, width := 40, height := 60\<rparr>)
            (ob\<lparr>x := 60, y := 310, width := 30, height := 40\<rparr>) \<and>
   \<not> collides (p\<lparr>x := 50, y := 290, width := 40, height := 60\<rparr>)
              (ob\<lparr>x := 200, y := 310, width := 30, height := 40\<rparr>) \<and>
   (canvasReady f \<and> gameState s = PLAYING \<and> tick f s = Inr s' \<longrightarrow>
      (let moved = movedObstacles f ((gameRef s)\<lparr>currentSpeed := currentSpeed (gameRef s')\<rparr>) in
         (gameState s' = GAME_OVER \<longleftrightarrow> (\<exists>ob \<in> set moved. collides (player (gameRef s')) ob)) \<and>
         ((\<exists>ob \<in> set (obstacles (gameRef s')). collides (player (gameRef s')) ob)
            \<longrightarrow> gameState s' = GAME_OVER) \<and>
         obstacles (gameRef s') = filter (\<lambda>ob. \<not> offScreen ob) moved \<and>
         score (gameRef s') = score (gameRef s) + 10 * int (length (filter offScreen moved))))"
proof (intro conjI impI)
  show "collides (p\<lparr>x := 50, y := 290, width := 40, height := 60\<rparr>)
            (ob\<lparr>x := 60, y := 310, width := 30, height := 40\<rparr>)"
    by (simp add: collides_def)
  show "\<not> collides (p\<lparr>x := 50, y := 290, width := 40, height := 60\<rparr>)
              (ob\<lparr>x := 200, y := 310, width := 30, height := 40\<rparr>)"
    by (simp add: collides_def)
next
  assume a: "canvasReady f \<and> gameState s = PLAYING \<and> tick f s = Inr s'"
  then obtain s1 where s1: "processVision f s = Inr s1" and s': "s' = updatePhysics f s1"
    by (auto elim: tick_PLAYING)
  have pl: "gameState s = PLAYING" using a by simp
  note pv = processVision_PLAYING [OF pl s1]
  have mv: "movedObstacles f ((gameRef s)\<lparr>currentSpeed := currentSpeed (gameRef s')\<rparr>)
      = movedObstacles f (gameRef s1)"
    by (simp add: movedObstacles_def s' pv)
  have gs: "gameState s' = GAME_OVER \<longleftrightarrow>
      (\<exists>ob \<in> set (movedObstacles f (gameRef s1)). collides (player (gameRef s')) ob)"
    by (simp add: s' updatePhysics_gameState pv)
  have ob: "obstacles (gameRef s') = filter (\<lambda>ob. \<not> offScreen ob) (movedObstacles f (gameRef s1))"
    by (simp add: s' updatePhysics_obstacles)
  have sc: "score (gameRef s') =
      score (gameRef s) + 10 * int (length (filter offScreen (movedObstacles f (gameRef s1))))"
    by (simp add: s' updatePhysics_score pv)
  have live: "(\<exists>ob \<in> set (obstacles (gameRef s')). collides (player (gameRef s')) ob)
            \<longrightarrow> gameState s' = GAME_OVER"
    unfolding gs ob by auto
  show "let moved = movedObstacles f ((gameRef s)\<lparr>currentSpeed := currentSpeed (gameRef s')\<rparr>) in
         (gameState s' = GAME_OVER \<longleftrightarrow> (\<exists>ob \<in> set moved. collides (player (gameRef s')) ob)) \<and>
         ((\<exists>ob \<in> set (obstacles (gameRef s')). collides (player (gameRef s')) ob)
            \<longrightarrow> gameState s' = GAME_OVER) \<and>
         obstacles (gameRef s') = filter (\<lambda>ob. \<not> offScreen ob) moved \<and>
         score (gameRef s') = score (gameRef s) + 10 * int (length (filter offScreen moved))"
    unfolding Let_def mv using gs ob sc live by blast
qed

text \<open>
  At \<open>crowdedState\<close> the loop meets the colliding obstacle first (it has the larger
  index) and still removes and scores the other one afterwards: the commentary request
  carries the score 0 of the moment of the collision, the score after the frame is 10.
\<close>

theorem collision_single_pass_witness:
  "canvasReady blindFrame \<and> gameState crowdedState = PLAYING \<and>
   (\<exists>s'. tick blindFrame crowdedState = Inr s' \<and> gameState s' = GAME_OVER \<and>
      obstacles (gameRef s') = [cactusAt 60] \<and> score (gameRef s') = 10 \<and> pending s' = [0])"
proof -
  have h1: "canvasReady blindFrame" by (simp add: blindFrame_def)
  have h2: "gameState crowdedState = PLAYING" by (simp add: crowdedState_def)
  have t: "tick blindFrame crowdedState = Inr (updatePhysics blindFrame crowdedState)"
    by (simp add: tick_def processVision_def blindFrame_def crowdedState_def)
  let ?s = "updatePhysics blindFrame crowdedState"
  have sp: "currentSpeed (gameRef ?s) = 6"
    by (simp add: crowdedState_def initialGame_def BASE_SPEED_def)
  have pl: "player (gameRef ?s) = player initialGame"
    by (simp add: crowdedState_def initialGame_def gravity_def GROUND_Y_def NORMAL_HEIGHT_def)
  have mv: "movedObstacles blindFrame ((gameRef crowdedState)\<lparr>currentSpeed := 6\<rparr>)
      = [cactusAt (- 31), cactusAt 60]"
    by (simp add: movedObstacles_def crowdedState_def initialGame_def blindFrame_def
        spawnObstacle_def moveObstacle_def cactusAt_def CANVAS_WIDTH_def)
  have c: "\<not> collides (player initialGame) (cactusAt (- 31))"
      "collides (player initialGame) (cactusAt 60)"
      "offScreen (cactusAt (- 31))" "\<not> offScreen (cactusAt 60)"
    by (simp_all add: collides_def initialGame_def cactusAt_def offScreen_def
        GROUND_Y_def NORMAL_HEIGHT_def)
  have sc0: "score (gameRef crowdedState) = 0"
    by (simp add: crowdedState_def initialGame_def)
  have "(gameState ?s = GAME_OVER \<longleftrightarrow>
           (\<exists>ob \<in> set [cactusAt (- 31), cactusAt 60]. collides (player initialGame) ob)) \<and>
        obstacles (gameRef ?s) = filter (\<lambda>ob. \<not> offScreen ob) [cactusAt (- 31), cactusAt 60] \<and>
        score (gameRef ?s) = 0 + 10 * int (length (filter offScreen [cactusAt (- 31), cactusAt 60]))"
    using collision_single_pass [of undefined undefined blindFrame crowdedState ?s] h1 h2 t
    unfolding Let_def sp mv pl sc0 by blast
  then have "gameState ?s = GAME_OVER \<and> obstacles (gameRef ?s) = [cactusAt 60] \<and>
      score (gameRef ?s) = 10"
    by (simp add: c)
  moreover have "pending ?s = [0]"
    by (simp add: crowdedState_def cactusAt_def frame_eval obstacleStep_def collides_def
        handleGameOver_def)
  ultimately show ?thesis using h1 h2 t by simp
qed

subsection \<open>Vertical integration\<close>

text \<open>
  Claim C2. The integration step of the code is the step the specification words: if the
  feet are above the ground line (y + height < GROUND_Y) or the vertical velocity is
  negative, y grows by vy, then vy grows by GRAVITY, and the player is airborne; otherwise
  vy is 0, the player is not airborne and y is GROUND_Y - height. The constants have the
  stated values, and in every PLAYING frame the player after the frame is the result of
  this step on the player left by the inputs of the frame.
\<close>

theorem vertical_integration:
  "gravity p = integrate_spec p \<and>
   GRAVITY = 0.6 \<and> JUMP_FORCE = - 12 \<and> BASE_SPEED = 6 \<and> TURBO_SPEED_MULTIPLIER = 1.8 \<and>
   DUCK_HEIGHT = 30 \<and> NORMAL_HEIGHT = 60 \<and>
   (canvasReady f \<and> gameState s = PLAYING \<and> tick f s = Inr s' \<longrightarrow>
      (\<exists>s1. processVision f s = Inr s1 \<and>
            player (gameRef s') = integrate_spec (player (gameRef s1))))"
proof -
  have eq: "gravity q = integrate_spec q" for q
    by (auto simp: gravity_def integrate_spec_def)
  have "\<exists>s1. processVision f s = Inr s1 \<and> player (gameRef s') = integrate_spec (player (gameRef s1))"
    if "canvasReady f \<and> gameState s = PLAYING \<and> tick f s = Inr s'"
  proof -
    from that obtain s1 where "processVision f s = Inr s1" "s' = updatePhysics f s1"
      by (auto elim: tick_PLAYING)
    then show ?thesis by (auto simp: eq)
  qed
  then show ?thesis by (simp add: eq constants)
qed

theorem vertical_integration_witness:
  "canvasReady blindFrame \<and> gameState crowdedState = PLAYING \<and>
   (\<exists>s'. tick blindFrame crowdedState = Inr s' \<and> player (gameRef s') = player initialGame)"
proof -
  have h1: "canvasReady blindFrame" by (simp add: blindFrame_def)
  have h2: "gameState crowdedState = PLAYING" by (simp add: crowdedState_def)
  have t: "tick blindFrame crowdedState = Inr (updatePhysics blindFrame crowdedState)"
    by (simp add: tick_def processVision_def blindFrame_def crowdedState_def)
  have pv: "processVision blindFrame crowdedState = Inr crowdedState"
    by (simp add: processVision_def blindFrame_def)
  have "player (gameRef (updatePhysics blindFrame crowdedState)) =
      integrate_spec (player (gameRef crowdedState))"
    using vertical_integration [of _ blindFrame crowdedState "updatePhysics blindFrame crowdedState"]
      h1 h2 t pv by auto
  also have "\<dots> = player initialGame"
    by (simp add: integrate_spec_def crowdedState_def initialGame_def constants)
  finally show ?thesis using h1 h2 t by simp
qed

subsection \<open>The feet and the ground line\<close>

lemma overshoot_run: "run overshootTrace initialState = Inr overshootBefore"
  by (simp add: overshootTrace_def overshootBefore_def frame_eval)

lemma overshoot_tick: "tick (camera [idleHand]) overshootBefore = Inr overshootAfter"
  by (simp add: overshootAfter_def overshootBefore_def frame_eval)

lemma playerControl_inv: "grounded_inv p \<Longrightarrow> grounded_inv (playerControl g p)"
  by (auto simp: grounded_inv_def playerControl_def feet_def Let_def constants)

lemma gravity_inv: "feet p \<le> GROUND_Y \<or> 0 \<le> vy p \<Longrightarrow> grounded_inv (gravity p)"
  by (auto simp: grounded_inv_def gravity_def feet_def constants)

lemma gravity_bound:
  "feet p \<le> GROUND_Y \<or> 0 \<le> vy p \<Longrightarrow>
   feet (gravity p) \<le> GROUND_Y + max 0 (vy (gravity p) - GRAVITY) \<and>
   (\<not> isJumping (gravity p) \<longrightarrow> feet (gravity p) = GROUND_Y)"
  by (auto simp: gravity_def feet_def constants)

lemma handleInputs_inv:
  "grounded_inv (player (gameRef (handleInputs v s)))" if "grounded_inv (player (gameRef s))"
proof (cases "gameState s")
  case START
  then show ?thesis using that by (simp add: handleInputs_def)
next
  case PLAYING
  then show ?thesis using playerControl_inv [OF that] by (simp add: handleInputs_def)
next
  case GAME_OVER
  then show ?thesis using that
    by (simp add: handleInputs_def resetGame_def grounded_inv_def feet_def constants)
qed

lemma processVision_inv:
  "grounded_inv (player (gameRef s)) \<Longrightarrow> processVision f s = Inr s1 \<Longrightarrow>
   grounded_inv (player (gameRef s1))"
  using handleInputs_inv [of "s\<lparr>visionState := v\<rparr>" for v]
  by (auto simp: processVision_def split: if_splits sum.splits)

lemma tick_inv:
  assumes "grounded_inv (player (gameRef s))" "tick f s = Inr s'"
  shows "grounded_inv (player (gameRef s'))"
proof (cases "canvasReady f")
  case False
  with assms show ?thesis by (simp add: tick_def)
next
  case True
  from assms(2) True obtain s1 where s1: "processVision f s = Inr s1"
      and s': "s' = (if gameState s \<noteq> PLAYING then s1 else updatePhysics f s1)"
    by (auto simp: tick_def split: sum.splits if_splits)
  have i1: "grounded_inv (player (gameRef s1))"
    by (rule processVision_inv [OF assms(1) s1])
  show ?thesis
  proof (cases "gameState s = PLAYING")
    case True
    have "feet (player (gameRef s1)) \<le> GROUND_Y \<or> 0 \<le> vy (player (gameRef s1))"
      using i1 by (simp add: grounded_inv_def)
    from gravity_inv [OF this] True show ?thesis by (simp add: s')
  next
    case False
    then show ?thesis using i1 by (simp add: s')
  qed
qed

lemma reachable_inv: "reachable s \<Longrightarrow> grounded_inv (player (gameRef s))"
proof (induction rule: reachable.induct)
  case reachable_init
  show ?case by (simp add: grounded_inv_def initialState_def initialGame_def feet_def constants)
next
  case (reachable_step s e s')
  then show ?case
    by (cases e) (auto simp: commentaryResolved_def dest: tick_inv)
qed

text \<open>
  Claim C3, as stated: in every PLAYING frame of a reachable state the feet are not below
  the ground line after the integration step (y + height <= GROUND_Y). It fails: the
  airborne branch adds the velocity without clamping. After a jump, four frames of ducking
  in the air and four idle frames the player stands at y = 289.6 with velocity 1.4, and
  the next integration step puts the feet at 351.
\<close>

theorem feet_below_ground_counterexample:
  "reachable overshootBefore \<and> gameState overshootBefore = PLAYING \<and>
   tick (camera [idleHand]) overshootBefore = Inr overshootAfter \<and>
   y (player (gameRef overshootAfter)) + height (player (gameRef overshootAfter)) = 351 \<and>
   \<not> y (player (gameRef overshootAfter)) + height (player (gameRef overshootAfter)) \<le> GROUND_Y"
proof -
  have "reachable overshootBefore"
    using run_reachable [OF reachable_init overshoot_run] .
  moreover have "y (player (gameRef overshootAfter)) + height (player (gameRef overshootAfter)) = 351"
    by (simp add: overshootAfter_def initialGame_def constants)
  ultimately show ?thesis
    using overshoot_tick by (simp add: GROUND_Y_def) (simp add: overshootBefore_def)
qed

text \<open>
  Claim C3, amended: in every PLAYING frame of a reachable state, after the integration
  step the feet are below the ground line by at most the velocity the step has just
  applied (the new velocity minus GRAVITY) when that velocity is downward, and not at all
  otherwise; and a player the step leaves not airborne has the feet exactly on the ground
  line.
\<close>

theorem feet_bound_after_integration:
  "reachable s \<and> canvasReady f \<and> gameState s = PLAYING \<and> tick f s = Inr s' \<longrightarrow>
     feet (player (gameRef s')) \<le> GROUND_Y + max 0 (vy (player (gameRef s')) - GRAVITY) \<and>
     (\<not> isJumping (player (gameRef s')) \<longrightarrow> feet (player (gameRef s')) = GROUND_Y)"
proof
  assume a: "reachable s \<and> canvasReady f \<and> gameState s = PLAYING \<and> tick f s = Inr s'"
  then obtain s1 where s1: "processVision f s = Inr s1" and s': "s' = updatePhysics f s1"
    by (auto elim: tick_PLAYING)
  have "grounded_inv (player (gameRef s))" using a by (simp add: reachable_inv)
  then have "grounded_inv (player (gameRef s1))" by (rule processVision_inv [OF _ s1])
  then have "feet (player (gameRef s1)) \<le> GROUND_Y \<or> 0 \<le> vy (player (gameRef s1))"
    by (simp add: grounded_inv_def)
  from gravity_bound [OF this]
  show "feet (player (gameRef s')) \<le> GROUND_Y + max 0 (vy (player (gameRef s')) - GRAVITY) \<and>
     (\<not> isJumping (player (gameRef s')) \<longrightarrow> feet (player (gameRef s')) = GROUND_Y)"
    by (simp add: s')
qed

theorem feet_bound_after_integration_witness:
  "reachable overshootBefore \<and> canvasReady (camera [idleHand]) \<and>
   gameState overshootBefore = PLAYING \<and>
   tick (camera [idleHand]) overshootBefore = Inr overshootAfter \<and>
   feet (player (gameRef overshootAfter)) \<le> GROUND_Y + 1.4"
proof -
  have r: "reachable overshootBefore"
    using run_reachable [OF reachable_init overshoot_run] .
  have c: "canvasReady (camera [idleHand])" by (simp add: camera_def)
  have g: "gameState overshootBefore = PLAYING" by (simp add: overshootBefore_def)
  have v: "vy (player (gameRef overshootAfter)) - GRAVITY = 1.4"
    by (simp add: overshootAfter_def constants)
  from feet_bound_after_integration [of overshootBefore "camera [idleHand]" overshootAfter]
    r c g overshoot_tick
  have "feet (player (gameRef overshootAfter)) \<le> GROUND_Y + max 0 (vy (player (gameRef overshootAfter)) - GRAVITY)"
    by blast
  then have "feet (player (gameRef overshootAfter)) \<le> GROUND_Y + 1.4"
    unfolding v by simp
  with r c g overshoot_tick show ?thesis by simp
qed

subsection \<open>The score\<close>

text \<open>
  Claim C4. A frame in phase PLAYING never lowers the score: it adds exactly 10 for each
  obstacle whose right edge (x + width) is left of the field's left boundary after the
  move, and these are exactly the obstacles the frame removes from the sequence, so none
  is credited twice. Nothing else changes the score within a session: a frame without a
  canvas changes nothing, a frame in phase START or a resolved commentary leaves the score
  as it is, and a frame in phase GAME_OVER leaves it as it is unless it resets the game.
\<close>

theorem score_monotone:
  "tick f s = Inr s' \<longrightarrow>
     (gameState s = PLAYING \<longrightarrow> score (gameRef s) \<le> score (gameRef s')) \<and>
     (gameState s = PLAYING \<and> canvasReady f \<longrightarrow>
        (let moved = movedObstacles f ((gameRef s)\<lparr>currentSpeed := currentSpeed (gameRef s')\<rparr>) in
           score (gameRef s') = score (gameRef s) + 10 * int (length (filter offScreen moved)) \<and>
           obstacles (gameRef s') = filter (\<lambda>ob. \<not> offScreen ob) moved)) \<and>
     (gameState s = PLAYING \<and> \<not> canvasReady f \<longrightarrow> s' = s) \<and>
     (gameState s = START \<longrightarrow> score (gameRef s') = score (gameRef s)) \<and>
     (gameState s = GAME_OVER \<longrightarrow>
        score (gameRef s') = score (gameRef s) \<or> (gameState s' = PLAYING \<and> gameRef s' = initialGame)) \<and>
     score (gameRef (commentaryResolved k outcome s)) = score (gameRef s)"
proof
  assume t: "tick f s = Inr s'"
  have play: "let moved = movedObstacles f ((gameRef s)\<lparr>currentSpeed := currentSpeed (gameRef s')\<rparr>) in
           score (gameRef s') = score (gameRef s) + 10 * int (length (filter offScreen moved)) \<and>
           obstacles (gameRef s') = filter (\<lambda>ob. \<not> offScreen ob) moved"
    if pl: "gameState s = PLAYING" and cr: "canvasReady f"
  proof -
    from tick_PLAYING [OF cr pl t] obtain s1
      where s1: "processVision f s = Inr s1" and s': "s' = updatePhysics f s1" by blast
    note pv = processVision_PLAYING [OF pl s1]
    have mv: "movedObstacles f ((gameRef s)\<lparr>currentSpeed := currentSpeed (gameRef s')\<rparr>)
        = movedObstacles f (gameRef s1)"
      by (simp add: movedObstacles_def s' pv)
    show ?thesis
      unfolding Let_def mv by (simp add: s' updatePhysics_score updatePhysics_obstacles pv)
  qed
  have idle: "s' = s" if "\<not> canvasReady f"
    using t that by (simp add: tick_def)
  have mono: "score (gameRef s) \<le> score (gameRef s')" if pl: "gameState s = PLAYING"
  proof (cases "canvasReady f")
    case True
    from play [OF pl True] show ?thesis by (simp add: Let_def)
  next
    case False
    then show ?thesis by (simp add: idle)
  qed
  have start: "score (gameRef s') = score (gameRef s)" if "gameState s = START"
    using t that
    by (auto simp: tick_def processVision_def handleInputs_def split: sum.splits if_splits)
  have over: "score (gameRef s') = score (gameRef s) \<or> (gameState s' = PLAYING \<and> gameRef s' = initialGame)"
    if "gameState s = GAME_OVER"
    using t that
    by (auto simp: tick_def processVision_def handleInputs_def resetGame_def initialGame_def
        split: sum.splits if_splits)
  have res: "score (gameRef (commentaryResolved k outcome s)) = score (gameRef s)"
    by (simp add: commentaryResolved_def)
  show "(gameState s = PLAYING \<longrightarrow> score (gameRef s) \<le> score (gameRef s')) \<and>
     (gameState s = PLAYING \<and> canvasReady f \<longrightarrow>
        (let moved = movedObstacles f ((gameRef s)\<lparr>currentSpeed := currentSpeed (gameRef s')\<rparr>) in
           score (gameRef s') = score (gameRef s) + 10 * int (length (filter offScreen moved)) \<and>
           obstacles (gameRef s') = filter (\<lambda>ob. \<not> offScreen ob) moved)) \<and>
     (gameState s = PLAYING \<and> \<not> canvasReady f \<longrightarrow> s' = s) \<and>
     (gameState s = START \<longrightarrow> score (gameRef s') = score (gameRef s)) \<and>
     (gameState s = GAME_OVER \<longrightarrow>
        score (gameRef s') = score (gameRef s) \<or> (gameState s' = PLAYING \<and> gameRef s' = initialGame)) \<and>
     score (gameRef (commentaryResolved k outcome s)) = score (gameRef s)"
    using play idle mono start over res by blast
qed

theorem score_monotone_witness:
  "gameState crowdedState = PLAYING \<and> canvasReady blindFrame \<and> score (gameRef crowdedState) = 0 \<and>
   (\<exists>s'. tick blindFrame crowdedState = Inr s' \<and> score (gameRef s') = 10 \<and>
      obstacles (gameRef s') = [cactusAt 60])"
proof -
  have h1: "canvasReady blindFrame" by (simp add: blindFrame_def)
  have h2: "gameState crowdedState = PLAYING" by (simp add: crowdedState_def)
  have t: "tick blindFrame crowdedState = Inr (updatePhysics blindFrame crowdedState)"
    by (simp add: tick_def processVision_def blindFrame_def crowdedState_def)
  let ?s = "updatePhysics blindFrame crowdedState"
  have sp: "currentSpeed (gameRef ?s) = 6"
    by (simp add: crowdedState_def initialGame_def BASE_SPEED_def)
  have mv: "movedObstacles blindFrame ((gameRef crowdedState)\<lparr>currentSpeed := 6\<rparr>)
      = [cactusAt (- 31), cactusAt 60]"
    by (simp add: movedObstacles_def crowdedState_def initialGame_def blindFrame_def
        spawnObstacle_def moveObstacle_def cactusAt_def CANVAS_WIDTH_def)
  have c: "offScreen (cactusAt (- 31))" "\<not> offScreen (cactusAt 60)"
    by (simp_all add: cactusAt_def offScreen_def)
  have sc0: "score (gameRef crowdedState) = 0"
    by (simp add: crowdedState_def initialGame_def)
  have "score (gameRef ?s) = 0 + 10 * int (length (filter offScreen [cactusAt (- 31), cactusAt 60])) \<and>
        obstacles (gameRef ?s) = filter (\<lambda>ob. \<not> offScreen ob) [cactusAt (- 31), cactusAt 60]"
    using score_monotone [of blindFrame crowdedState ?s] h1 h2 t
    unfolding Let_def sp mv sc0 by blast
  then have "score (gameRef ?s) = 10 \<and> obstacles (gameRef ?s) = [cactusAt 60]"
    by (simp add: c)
  with h1 h2 t sc0 show ?thesis by simp
qed

subsection \<open>Restart\<close>

text \<open>
  Claim C5. In phase GAME_OVER a frame whose vision state reports THUMBS_UP sets the phase
  to PLAYING and puts the game back to its initial value: the player at x = 50,
  y = GROUND_Y - NORMAL_HEIGHT with the normal height, no velocity, neither jumping nor
  ducking; no obstacles, frame counter 0, base speed, score 0; the displayed score is 0
  and the commentary text is empty. This holds from every state in that phase, reachable
  or not.
\<close>

theorem thumbs_up_resets:
  "canvasReady f \<and> videoReady f \<and> gameState s = GAME_OVER \<and>
   processVideoFrame (landmarkerLoaded f) (videoWidth f) (hands f) = Inr v \<and>
   gesture v = THUMBS_UP \<longrightarrow>
     (\<exists>s'. tick f s = Inr s' \<and> gameState s' = PLAYING \<and> gameRef s' = initialGame \<and>
        player (gameRef s') =
          \<lparr>x = 50, y = GROUND_Y - NORMAL_HEIGHT, width = 40, height = NORMAL_HEIGHT,
           color = ''#00ffcc'', vy = 0, isJumping = False, isDucking = False\<rparr> \<and>
        obstacles (gameRef s') = [] \<and> frameCount (gameRef s') = 0 \<and>
        currentSpeed (gameRef s') = BASE_SPEED \<and> score (gameRef s') = 0 \<and>
        score_ui s' = 0 \<and> aiMessage s' = [])"
  by (simp add: tick_def processVision_def handleInputs_def resetGame_def initialGame_def)

theorem thumbs_up_resets_witness:
  "canvasReady (camera [thumbHand]) \<and> videoReady (camera [thumbHand]) \<and>
   gameState gameOverState = GAME_OVER \<and>
   (\<exists>s'. tick (camera [thumbHand]) gameOverState = Inr s' \<and> gameState s' = PLAYING \<and>
      gameRef s' = initialGame \<and> aiMessage s' = [])"
proof -
  have h: "canvasReady (camera [thumbHand])" "videoReady (camera [thumbHand])"
      "gameState gameOverState = GAME_OVER"
    by (simp_all add: camera_def gameOverState_def)
  have v: "processVideoFrame (landmarkerLoaded (camera [thumbHand])) (videoWidth (camera [thumbHand]))
      (hands (camera [thumbHand])) = Inr \<lparr>handCount = 1, gesture = THUMBS_UP, isTurbo = False\<rparr>"
    by (simp add: camera_def processVideoFrame_camera)
  from thumbs_up_resets [of "camera [thumbHand]" gameOverState
      "\<lparr>handCount = 1, gesture = THUMBS_UP, isTurbo = False\<rparr>"] h v
  show ?thesis by auto
qed

subsection \<open>The gesture of one hand\<close>

text \<open>
  Claim C6. For a hand of 21 landmarks the classification is the one the specification
  words: THUMBS_UP exactly when the thumb tip is above the thumb joint and no finger among
  index, middle, ring and pinky is extended; otherwise OPEN_PALM exactly when at least 3
  of them are; otherwise CLOSED_FIST exactly when at most 1 is; otherwise NONE. The tests
  are made in this order.
\<close>

theorem detectGesture_classification:
  "21 \<le> length lms \<Longrightarrow>
   detectGesture lms = Inr (classify_spec lms) \<and>
   (detectGesture lms = Inr THUMBS_UP \<longleftrightarrow> thumbUp lms \<and> extendedFingers lms = 0) \<and>
   (detectGesture lms = Inr OPEN_PALM \<longleftrightarrow>
      \<not> (thumbUp lms \<and> extendedFingers lms = 0) \<and> extendedFingers lms \<ge> 3) \<and>
   (detectGesture lms = Inr CLOSED_FIST \<longleftrightarrow>
      \<not> (thumbUp lms \<and> extendedFingers lms = 0) \<and> \<not> extendedFingers lms \<ge> 3 \<and>
      extendedFingers lms \<le> 1) \<and>
   (detectGesture lms = Inr NONE \<longleftrightarrow>
      \<not> (thumbUp lms \<and> extendedFingers lms = 0) \<and> \<not> extendedFingers lms \<ge> 3 \<and>
      \<not> extendedFingers lms \<le> 1)"
proof -
  assume len: "21 \<le> length lms"
  have eq: "detectGesture lms = Inr (classify_spec lms)"
    using len
    by (simp add: detectGesture_def classify_spec_def extendedFingers_def thumbUp_def
        fingerJoints_def isExtended_def Let_def)
  show ?thesis
    unfolding eq by (auto simp: classify_spec_def)
qed

theorem detectGesture_classification_witness:
  "21 \<le> length thumbHand \<and> detectGesture thumbHand = Inr THUMBS_UP \<and>
   thumbUp thumbHand \<and> extendedFingers thumbHand = 0"
  using detectGesture_classification [of thumbHand]
  by (simp add: thumbHand_def hand_def classify_spec_def thumbUp_def extendedFingers_def
      fingerJoints_def)

subsection \<open>Turbo\<close>

text \<open>
  Claim C7, as stated: in every PLAYING frame the speed is BASE_SPEED * 1.8 if the vision
  state of the frame is turbo and BASE_SPEED otherwise, recomputed in every frame and
  never latched. It fails in a frame whose video element is not ready, where the speed is
  not recomputed. After a frame with two hands, a PLAYING frame without video (it shows no
  hand, and the specification gives it the neutral vision state) keeps the speed
  BASE_SPEED * 1.8. Reading the stored vision state as the vision state of such a frame
  does not save the claim: after the game is started with two hands in view, a PLAYING
  frame without video has a stored vision state that is turbo and runs at BASE_SPEED.
\<close>

theorem speed_latched_counterexample:
  "run turboTrace initialState = Inr turboState \<and> gameState turboState = PLAYING \<and>
   \<not> videoReady blindFrame \<and> hands blindFrame = [] \<and>
   tick blindFrame turboState = Inr turboLatched \<and>
   currentSpeed (gameRef turboLatched) = BASE_SPEED * TURBO_SPEED_MULTIPLIER \<and>
   currentSpeed (gameRef turboLatched) \<noteq> BASE_SPEED \<and>
   run [FrameEvent (camera [palmHand, idleHand])] initialState = Inr twoHandStart \<and>
   gameState twoHandStart = PLAYING \<and>
   tick blindFrame twoHandStart = Inr twoHandAfter \<and>
   isTurbo (visionState twoHandAfter) \<and>
   currentSpeed (gameRef twoHandAfter) = BASE_SPEED \<and>
   currentSpeed (gameRef twoHandAfter) \<noteq> BASE_SPEED * TURBO_SPEED_MULTIPLIER"
proof -
  have "gameState turboState = PLAYING" "\<not> videoReady blindFrame" "hands blindFrame = []"
      "currentSpeed (gameRef turboLatched) = BASE_SPEED * TURBO_SPEED_MULTIPLIER"
      "currentSpeed (gameRef turboLatched) \<noteq> BASE_SPEED"
    by (simp_all add: turboLatched_def turboState_def blindFrame_def constants)
  moreover have "gameState twoHandStart = PLAYING" "isTurbo (visionState twoHandAfter)"
      "currentSpeed (gameRef twoHandAfter) = BASE_SPEED"
      "currentSpeed (gameRef twoHandAfter) \<noteq> BASE_SPEED * TURBO_SPEED_MULTIPLIER"
    by (simp_all add: twoHandAfter_def twoHandStart_def initialGame_def constants)
  ultimately show ?thesis
    using turbo_run turbo_blind twoHand_run twoHand_blind by simp
qed

text \<open>
  Claim C7, amended: in every PLAYING frame whose video element is ready, the hand count
  of the frame's vision state is the number of detected hands (0 when the landmarker or
  the video has no data), turbo holds exactly when the hand count is at least 2, whatever
  the gesture, and the speed after the frame is BASE_SPEED * 1.8 if turbo holds and
  BASE_SPEED otherwise, whatever the speed was before; in a PLAYING frame whose video
  element is not ready the speed keeps its value.
\<close>

theorem speed_recomputed_when_video_ready:
  "(canvasReady f \<and> videoReady f \<and> gameState s = PLAYING \<and> tick f s = Inr s' \<longrightarrow>
      handCount (visionState s') =
        (if landmarkerLoaded f \<and> videoWidth f \<noteq> 0 then length (hands f) else 0) \<and>
      isTurbo (visionState s') = (handCount (visionState s') \<ge> 2) \<and>
      currentSpeed (gameRef s') =
        (if isTurbo (visionState s') then BASE_SPEED * 1.8 else BASE_SPEED)) \<and>
   (canvasReady f \<and> \<not> videoReady f \<and> gameState s = PLAYING \<and> tick f s = Inr s' \<longrightarrow>
      currentSpeed (gameRef s') = currentSpeed (gameRef s))"
  by (auto simp: tick_def processVision_def processVideoFrame_def handleInputs_def
      TURBO_SPEED_MULTIPLIER_def split: sum.splits if_splits)

theorem speed_recomputed_when_video_ready_witness:
  "canvasReady (camera [idleHand]) \<and> videoReady (camera [idleHand]) \<and>
   gameState turboState = PLAYING \<and> currentSpeed (gameRef turboState) = BASE_SPEED * 1.8 \<and>
   tick (camera [idleHand]) turboState = Inr turboEnded \<and>
   currentSpeed (gameRef turboEnded) = BASE_SPEED \<and>
   canvasReady blindFrame \<and> \<not> videoReady blindFrame \<and>
   tick blindFrame turboState = Inr turboLatched \<and>
   currentSpeed (gameRef turboLatched) = currentSpeed (gameRef turboState)"
proof -
  have h: "canvasReady (camera [idleHand])" "videoReady (camera [idleHand])"
      "gameState turboState = PLAYING" "currentSpeed (gameRef turboState) = BASE_SPEED * 1.8"
      "canvasReady blindFrame" "\<not> videoReady blindFrame"
    by (simp_all add: camera_def blindFrame_def turboState_def constants)
  have nt: "\<not> isTurbo (visionState turboEnded)" by (simp add: turboEnded_def)
  from speed_recomputed_when_video_ready [of "camera [idleHand]" turboState turboEnded]
    h turbo_ended nt
  have 1: "currentSpeed (gameRef turboEnded) = BASE_SPEED" by simp
  from speed_recomputed_when_video_ready [of blindFrame turboState turboLatched] h turbo_blind
  have 2: "currentSpeed (gameRef turboLatched) = currentSpeed (gameRef turboState)" by simp
  from h 1 2 turbo_ended turbo_blind show ?thesis by simp
qed

subsection \<open>Commentary that arrives late\<close>

lemma replicate_numeral: "replicate (numeral k) a = a # replicate (pred_numeral k) a"
  by (simp add: numeral_eq_Suc)

lemmas trace_eval =
  replicate_numeral run_append frame_eval turboFrame_def birdFrame_def cactusFrame_def
  obstacleStep_def collides_def handleGameOver_def resetGame_def cactusAt_def

lemma session1_run: "run session1 initialState = Inr firstGameOver"
  by (simp add: session1_def firstGameOver_def trace_eval)

lemma session2_run: "run session2 firstGameOver = Inr secondGameOver"
  by (simp add: session2_def firstGameOver_def secondGameOver_def trace_eval)

lemma late_responses:
  "run [CommentaryEvent 1 (ResponseText ''Try again''), CommentaryEvent 0 ApiError] secondGameOver
     = Inr staleShown"
  by (simp add: staleShown_def secondGameOver_def commentaryResolved_def showScore_def)

text \<open>
  Claim C8 says that the answer to a commentary request of an earlier session is never
  what the commentary field ends up showing. The code stores every answer when it
  arrives. The first session ends with score 10 and its request stays in flight; the
  thumbs up starts the second session, which ends with score 0; the answer for the second
  session arrives, then the request of the first session fails and its fallback text is
  stored: the game over screen of a session with score 0 shows the text for score 10.
\<close>

theorem stale_commentary_shown:
  "run session1 initialState = Inr firstGameOver \<and>
   score (gameRef firstGameOver) = 10 \<and> pending firstGameOver = [10] \<and>
   run session2 firstGameOver = Inr secondGameOver \<and>
   gameState secondGameOver = GAME_OVER \<and> score (gameRef secondGameOver) = 0 \<and>
   pending secondGameOver = [10, 0] \<and>
   run [CommentaryEvent 1 (ResponseText ''Try again''), CommentaryEvent 0 ApiError] secondGameOver
     = Inr staleShown \<and>
   reachable staleShown \<and> gameState staleShown = GAME_OVER \<and>
   score (gameRef staleShown) = 0 \<and> aiMessage staleShown = ''Game Over! Score: 10'' \<and>
   aiMessage staleShown = generateGameOverMessage (score (gameRef firstGameOver)) ApiError"
proof -
  have r: "reachable staleShown"
    using run_reachable [OF run_reachable [OF run_reachable [OF reachable_init session1_run]
      session2_run] late_responses] .
  have "score (gameRef firstGameOver) = 10" "pending firstGameOver = [10]"
      "gameState secondGameOver = GAME_OVER" "score (gameRef secondGameOver) = 0"
      "pending secondGameOver = [10, 0]" "gameState staleShown = GAME_OVER"
      "score (gameRef staleShown) = 0" "aiMessage staleShown = ''Game Over! Score: 10''"
    by (simp_all add: firstGameOver_def secondGameOver_def staleShown_def initialGame_def)
  moreover have "generateGameOverMessage 10 ApiError = ''Game Over! Score: 10''"
    by (simp add: showScore_def)
  ultimately show ?thesis
    using session1_run session2_run late_responses r by simp
qed

subsection \<open>Ducking\<close>

text \<open>
  Claim C9. With the gesture CLOSED_FIST the player control sets the ducking flag, the
  height DUCK_HEIGHT and y = GROUND_Y - DUCK_HEIGHT, so that the feet are on the ground
  line, and adds 2 to vy exactly when the player is airborne; it leaves the airborne flag
  and the horizontal extent alone. Applied again to its own result it changes neither the
  height nor the position. In a PLAYING frame with a ready video and that gesture, this
  is what the input step does to the player.
\<close>

theorem duck_transition:
  "isDucking (playerControl CLOSED_FIST p) \<and>
   height (playerControl CLOSED_FIST p) = DUCK_HEIGHT \<and>
   y (playerControl CLOSED_FIST p) = GROUND_Y - DUCK_HEIGHT \<and>
   feet (playerControl CLOSED_FIST p) = GROUND_Y \<and>
   vy (playerControl CLOSED_FIST p) = (if isJumping p then vy p + 2 else vy p) \<and>
   isJumping (playerControl CLOSED_FIST p) = isJumping p \<and>
   x (playerControl CLOSED_FIST p) = x p \<and>
   width (playerControl CLOSED_FIST p) = width p \<and>
   height (playerControl CLOSED_FIST (playerControl CLOSED_FIST p)) = height (playerControl CLOSED_FIST p) \<and>
   y (playerControl CLOSED_FIST (playerControl CLOSED_FIST p)) = y (playerControl CLOSED_FIST p) \<and>
   x (playerControl CLOSED_FIST (playerControl CLOSED_FIST p)) = x (playerControl CLOSED_FIST p) \<and>
   width (playerControl CLOSED_FIST (playerControl CLOSED_FIST p)) = width (playerControl CLOSED_FIST p) \<and>
   isDucking (playerControl CLOSED_FIST (playerControl CLOSED_FIST p)) \<and>
   (gameState s = PLAYING \<and> videoReady f \<and>
    processVideoFrame (landmarkerLoaded f) (videoWidth f) (hands f) = Inr v \<and>
    gesture v = CLOSED_FIST \<longrightarrow>
      (\<exists>s1. processVision f s = Inr s1 \<and>
         player (gameRef s1) = playerControl CLOSED_FIST (player (gameRef s))))"
  by (simp add: playerControl_def Let_def feet_def processVision_def handleInputs_def)

theorem duck_transition_witness:
  "gameState overshootBefore = PLAYING \<and> videoReady (camera [fistHand]) \<and>
   (\<exists>s1. processVision (camera [fistHand]) overshootBefore = Inr s1 \<and>
      height (player (gameRef s1)) = 30 \<and> y (player (gameRef s1)) = 320 \<and>
      vy (player (gameRef s1)) = 3.4 \<and> isDucking (player (gameRef s1)))"
proof -
  have h: "gameState overshootBefore = PLAYING" "videoReady (camera [fistHand])"
    by (simp_all add: camera_def overshootBefore_def)
  have v: "processVideoFrame (landmarkerLoaded (camera [fistHand])) (videoWidth (camera [fistHand]))
      (hands (camera [fistHand])) = Inr \<lparr>handCount = 1, gesture = CLOSED_FIST, isTurbo = False\<rparr>"
    by (simp add: camera_def processVideoFrame_camera)
  have p: "isJumping (player (gameRef overshootBefore))" "vy (player (gameRef overshootBefore)) = 1.4"
    by (simp_all add: overshootBefore_def)
  from duck_transition [of "player (gameRef overshootBefore)" overshootBefore "camera [fistHand]"
      "\<lparr>handCount = 1, gesture = CLOSED_FIST, isTurbo = False\<rparr>"] h v
  show ?thesis by (auto simp: p constants)
qed

subsection \<open>Frames without video\<close>

text \<open>
  Claim C10. In a frame whose video element is not ready the input step is skipped
  altogether: it returns the state as it is, and the frame is the physics step on that
  state in phase PLAYING and nothing in the other phases. So the stored vision state and
  the speed keep their values (a turbo speed persists), the player enters the
  integration step unchanged and keeps height and ducking flag, and in phase PLAYING
  spawning, moving, removal and the collision test run as in any frame.
\<close>

theorem video_not_ready_skips_inputs:
  "canvasReady f \<and> \<not> videoReady f \<longrightarrow>
     processVision f s = Inr s \<and>
     tick f s = Inr (if gameState s = PLAYING then updatePhysics f s else s) \<and>
     (\<forall>s'. tick f s = Inr s' \<longrightarrow>
        visionState s' = visionState s \<and>
        currentSpeed (gameRef s') = currentSpeed (gameRef s) \<and>
        player (gameRef s') =
          (if gameState s = PLAYING then gravity (player (gameRef s)) else player (gameRef s)) \<and>
        height (player (gameRef s')) = height (player (gameRef s)) \<and>
        isDucking (player (gameRef s')) = isDucking (player (gameRef s)) \<and>
        (gameState s = PLAYING \<longrightarrow>
           obstacles (gameRef s') =
             filter (\<lambda>ob. \<not> offScreen ob) (movedObstacles f (gameRef s)) \<and>
           gameState s' =
             (if \<exists>ob \<in> set (movedObstacles f (gameRef s)). collides (player (gameRef s')) ob
              then GAME_OVER else PLAYING)))"
  by (auto simp: tick_def processVision_def updatePhysics_obstacles updatePhysics_gameState gravity_def)

theorem video_not_ready_skips_inputs_witness:
  "canvasReady blindFrame \<and> \<not> videoReady blindFrame \<and>
   currentSpeed (gameRef turboState) = BASE_SPEED * TURBO_SPEED_MULTIPLIER \<and>
   tick blindFrame turboState = Inr turboLatched \<and>
   visionState turboLatched = visionState turboState \<and>
   currentSpeed (gameRef turboLatched) = BASE_SPEED * TURBO_SPEED_MULTIPLIER"
proof -
  have h: "canvasReady blindFrame" "\<not> videoReady blindFrame"
      "currentSpeed (gameRef turboState) = BASE_SPEED * TURBO_SPEED_MULTIPLIER"
    by (simp_all add: blindFrame_def turboState_def constants)
  from video_not_ready_skips_inputs [of blindFrame turboState] h turbo_blind
  have "visionState turboLatched = visionState turboState \<and>
      currentSpeed (gameRef turboLatched) = currentSpeed (gameRef turboState)"
    by simp
  with h turbo_blind show ?thesis by simp
qed

end
